theory Spec2Isabelle
  imports Main
begin

section \<open>Strings as the server handles them\<close>

text \<open>
  The server is one Express application (\<^verbatim>\<open>server.js\<close>): a route \<^verbatim>\<open>POST /token\<close> that
  issues a signed token behind a rate limiter and a validation chain, and a route
  \<^verbatim>\<open>GET /secure-data\<close> behind the middleware \<^verbatim>\<open>authenticate\<close>. Strings are \<open>char list\<close>;
  time is a count of milliseconds.
\<close>

text \<open>\<^verbatim>\<open>s.startsWith(p)\<close>.\<close>

definition startsWith :: "string \<Rightarrow> string \<Rightarrow> bool" where
  "startsWith s p = (take (length p) s = p)"

text \<open>
  \<^verbatim>\<open>s.split(sep)\<close> for a one-character separator: the pieces between the separators, the
  empty ones included, so that the result is never empty (\<^verbatim>\<open>"".split(" ")\<close> is \<^verbatim>\<open>[""]\<close>).
\<close>

fun split :: "char \<Rightarrow> string \<Rightarrow> string list" where
  "split sep [] = [[]]"
| "split sep (x # xs) =
     (if x = sep then [] # split sep xs
      else (case split sep xs of
              [] \<Rightarrow> [[x]]
            | w # ws \<Rightarrow> (x # w) # ws))"

text \<open>\<^verbatim>\<open>xs[i]\<close>: \<^verbatim>\<open>undefined\<close> (here \<open>None\<close>) out of range.\<close>

definition index :: "'a list \<Rightarrow> nat \<Rightarrow> 'a option" where
  "index xs i = (if i < length xs then Some (xs ! i) else None)"

section \<open>Responses\<close>

text \<open>Modelled from the spec: the element that express-validator's \<^verbatim>\<open>errors.array()\<close> yields
  is not in the repository. The spec gives an element of the \<^verbatim>\<open>errors\<close> array of a validation
  failure the shape \<^verbatim>\<open>{ field, message }\<close>.\<close>

record validation_error =
  field :: string
  message :: string

datatype json =
    Message string
  | Errors "validation_error list"
  | AccessToken string

record response =
  status :: nat
  body :: json

text \<open>\<^verbatim>\<open>res.json(b)\<close> answers with status 200; \<^verbatim>\<open>res.status(n).json(b)\<close> with status \<open>n\<close>.\<close>

definition res_json :: "json \<Rightarrow> response" where
  "res_json b = \<lparr>status = 200, body = b\<rparr>"

definition res_status_json :: "nat \<Rightarrow> json \<Rightarrow> response" where
  "res_status_json n b = \<lparr>status = n, body = b\<rparr>"

section \<open>The signed token\<close>

text \<open>Modelled from the spec: the payload that jsonwebtoken builds is not in the repository.
  The spec's identity claim: \<^verbatim>\<open>{subject, issuedAt, expiresAt}\<close>; the subject is the payload's
  \<^verbatim>\<open>user\<close>.\<close>

record claim =
  subject :: string
  issuedAt :: nat
  expiresAt :: nat

text \<open>Modelled from the spec: the errors of \<^verbatim>\<open>jwt.verify\<close> are not in the repository. The
  spec's three decode failures.\<close>

datatype decode_error = InvalidSignature | Expired | Malformed

text \<open>
  The keyed signature primitive (secret, then message) is a parameter of everything below:
  nothing is assumed about it.
\<close>

type_synonym mac = "string \<Rightarrow> string \<Rightarrow> string"

text \<open>Modelled from the spec: the serialization that jsonwebtoken uses is not in the
  repository, and the spec only says that a token is a serialized claim. Two encodings
  stand for it here, a byte as two hexadecimal digits and a number in decimal; neither
  produces a dot or a space.\<close>

definition hex_digits :: string where
  "hex_digits = ''0123456789abcdef''"

definition hex_of_char :: "char \<Rightarrow> string" where
  "hex_of_char c =
     [hex_digits ! ((of_char c :: nat) div 16), hex_digits ! ((of_char c :: nat) mod 16)]"

definition hex_encode :: "string \<Rightarrow> string" where
  "hex_encode s = concat (map hex_of_char s)"

definition hex_val :: "char \<Rightarrow> nat option" where
  "hex_val c = map_of (zip hex_digits [0..<16]) c"

fun hex_decode :: "string \<Rightarrow> string option" where
  "hex_decode [] = Some []"
| "hex_decode [a] = None"
| "hex_decode (a # b # cs) =
     (case hex_val a of
        None \<Rightarrow> None
      | Some h \<Rightarrow>
          (case hex_val b of
             None \<Rightarrow> None
           | Some l \<Rightarrow>
               (case hex_decode cs of
                  None \<Rightarrow> None
                | Some r \<Rightarrow> Some (char_of (16 * h + l) # r))))"

definition dec_digits :: string where
  "dec_digits = ''0123456789''"

function dec_encode :: "nat \<Rightarrow> string" where
  "dec_encode n =
     (if n < 10 then [dec_digits ! n]
      else dec_encode (n div 10) @ [dec_digits ! (n mod 10)])"
  by pat_completeness auto
termination
  by (relation "measure id") auto

declare dec_encode.simps [simp del]

definition dec_val :: "char \<Rightarrow> nat option" where
  "dec_val c = map_of (zip dec_digits [0..<10]) c"

fun dec_value :: "nat \<Rightarrow> string \<Rightarrow> nat option" where
  "dec_value acc [] = Some acc"
| "dec_value acc (c # cs) =
     (case dec_val c of
        None \<Rightarrow> None
      | Some d \<Rightarrow> dec_value (10 * acc + d) cs)"

definition dec_decode :: "string \<Rightarrow> nat option" where
  "dec_decode s = (if s = [] then None else dec_value 0 s)"

text \<open>Modelled from the spec: the token format of jsonwebtoken is not in the repository. The
  spec: a token is the serialized claim, signed. Here the serialized claim is three
  dot-separated fields, the subject in hexadecimal and the two timestamps in decimal.\<close>

definition serialize :: "claim \<Rightarrow> string" where
  "serialize c =
     hex_encode (subject c) @ ''.'' @ dec_encode (issuedAt c) @ ''.'' @ dec_encode (expiresAt c)"

definition parse_claim :: "string \<Rightarrow> string \<Rightarrow> string \<Rightarrow> claim option" where
  "parse_claim s i e =
     (case hex_decode s of
        None \<Rightarrow> None
      | Some u \<Rightarrow>
          (case dec_decode i of
             None \<Rightarrow> None
           | Some a \<Rightarrow>
               (case dec_decode e of
                  None \<Rightarrow> None
                | Some b \<Rightarrow> Some \<lparr>subject = u, issuedAt = a, expiresAt = b\<rparr>)))"

text \<open>Modelled from the spec: \<^verbatim>\<open>jwt.sign\<close> (the package jsonwebtoken) is not in the repository.
  The spec's \<open>encode\<close>: a signed token embedding
  \<^verbatim>\<open>{subject, issuedAt = now, expiresAt = now + TTL}\<close>. The signature, in hexadecimal, is a
  fourth field after the serialized claim.\<close>

definition jwt_sign :: "mac \<Rightarrow> string \<Rightarrow> string \<Rightarrow> nat \<Rightarrow> nat \<Rightarrow> string" where
  "jwt_sign sig user secret expiresIn now =
     (let p = serialize \<lparr>subject = user, issuedAt = now, expiresAt = now + expiresIn\<rparr>
      in p @ ''.'' @ hex_encode (sig secret p))"

text \<open>Modelled from the spec: reading a token is jsonwebtoken's, not in the repository.
  The claim a token carries, parsed without checking the signature or the expiry.\<close>

definition jwt_decode :: "string \<Rightarrow> claim option" where
  "jwt_decode token =
     (case split CHR ''.'' token of
        [s, i, e, g] \<Rightarrow> parse_claim s i e
      | _ \<Rightarrow> None)"

text \<open>Modelled from the spec: \<^verbatim>\<open>jwt.verify\<close> (the package jsonwebtoken) is not in the
  repository. The spec's \<open>decode\<close>: it fails with \<open>Malformed\<close> if the token cannot be parsed
  into the expected structure, with \<open>InvalidSignature\<close> if the signature does not match, with
  \<open>Expired\<close> unless \<open>now < expiresAt\<close>; otherwise it yields the claim. No side effect.\<close>

definition jwt_verify :: "mac \<Rightarrow> string \<Rightarrow> string \<Rightarrow> nat \<Rightarrow> decode_error + claim" where
  "jwt_verify sig token secret now =
     (case split CHR ''.'' token of
        [s, i, e, g] \<Rightarrow>
          (case parse_claim s i e of
             None \<Rightarrow> Inl Malformed
           | Some c \<Rightarrow>
               if g \<noteq> hex_encode (sig secret (s @ ''.'' @ i @ ''.'' @ e)) then Inl InvalidSignature
               else if now < expiresAt c then Inr c
               else Inl Expired)
      | _ \<Rightarrow> Inl Malformed)"

section \<open>Configuration\<close>

text \<open>\<^verbatim>\<open>process.env.SECRET_KEY || "secret"\<close>: an unset or empty variable gives the default.\<close>

definition SECRET_KEY :: "string option \<Rightarrow> string" where
  "SECRET_KEY env =
     (case env of
        None \<Rightarrow> ''secret''
      | Some s \<Rightarrow> if s = [] then ''secret'' else s)"

text \<open>\<^verbatim>\<open>expiresIn: "1h"\<close>, in milliseconds.\<close>

definition one_hour :: nat where
  "one_hour = 60 * 60 * 1000"

text \<open>\<^verbatim>\<open>createToken(user)\<close>, at the time \<open>now\<close>.\<close>

definition createToken :: "mac \<Rightarrow> string option \<Rightarrow> string \<Rightarrow> nat \<Rightarrow> string" where
  "createToken sig env user now = jwt_sign sig user (SECRET_KEY env) one_hour now"

section \<open>The middleware authenticate and the protected route\<close>

text \<open>What a middleware does: it answers, or it calls \<^verbatim>\<open>next()\<close> with \<^verbatim>\<open>req.user\<close> set.\<close>

datatype outcome = Respond response | Next string

text \<open>
  \<^verbatim>\<open>authenticate(req, res, next)\<close>, on the request's \<^verbatim>\<open>Authorization\<close> header (\<open>None\<close> when the
  request has none). A token that is \<^verbatim>\<open>undefined\<close> is one that cannot be parsed.
\<close>

definition authenticate :: "mac \<Rightarrow> string option \<Rightarrow> nat \<Rightarrow> string option \<Rightarrow> outcome" where
  "authenticate sig env now authorization =
     (case authorization of
        None \<Rightarrow> Respond (res_status_json 401 (Message ''Unauthorized: No token provided''))
      | Some authHeader \<Rightarrow>
          if authHeader = [] \<or> \<not> startsWith authHeader ''Bearer '' then
            Respond (res_status_json 401 (Message ''Unauthorized: No token provided''))
          else
            (case index (split CHR '' '' authHeader) 1 of
               None \<Rightarrow> Respond (res_status_json 401 (Message ''Invalid or expired token''))
             | Some token \<Rightarrow>
                 (case jwt_verify sig token (SECRET_KEY env) now of
                    Inl err \<Rightarrow> Respond (res_status_json 401 (Message ''Invalid or expired token''))
                  | Inr decoded \<Rightarrow> Next (subject decoded))))"

text \<open>\<^verbatim>\<open>app.get("/secure-data", authenticate, handler)\<close>.\<close>

definition secure_data :: "mac \<Rightarrow> string option \<Rightarrow> nat \<Rightarrow> string option \<Rightarrow> response" where
  "secure_data sig env now authorization =
     (case authenticate sig env now authorization of
        Respond r \<Rightarrow> r
      | Next user \<Rightarrow> res_json (Message (''Hello, '' @ user @ ''!'')))"

section \<open>The route POST /token\<close>

text \<open>Modelled from the spec: the sanitizer \<^verbatim>\<open>trim()\<close> (the package express-validator) is not
  in the repository. The spec: trim whitespace. Whitespace is the space and the five
  control characters from tab to carriage return.\<close>

definition whitespace :: "char \<Rightarrow> bool" where
  "whitespace c = (c \<in> set [CHR '' '', CHR 0x09, CHR 0x0A, CHR 0x0B, CHR 0x0C, CHR 0x0D])"

definition trim :: "string \<Rightarrow> string" where
  "trim s = rev (dropWhile whitespace (rev (dropWhile whitespace s)))"

text \<open>Modelled from the spec: the validator \<^verbatim>\<open>notEmpty()\<close> (express-validator) is not in the
  repository. The spec: \<open>required\<close> if empty after trim.\<close>

definition notEmpty :: "string \<Rightarrow> bool" where
  "notEmpty s = (s \<noteq> [])"

text \<open>Modelled from the spec: the validator \<^verbatim>\<open>isLength({ min })\<close> (express-validator) is not in
  the repository. The spec: \<open>tooShort\<close> if length < 3.\<close>

definition isLength :: "nat \<Rightarrow> string \<Rightarrow> bool" where
  "isLength minimum s = (minimum \<le> length s)"

text \<open>
  The chain on \<^verbatim>\<open>body("username")\<close>: the trimmed value replaces the field, and each validator
  that fails adds its own message (the chain has no \<^verbatim>\<open>bail()\<close>).
\<close>

definition validationResult :: "string \<Rightarrow> validation_error list" where
  "validationResult username =
     (let v = trim username in
        (if notEmpty v then []
         else [\<lparr>field = ''username'', message = ''Username is required''\<rparr>]) @
        (if isLength 3 v then []
         else [\<lparr>field = ''username'',
                message = ''Username must be at least 3 characters long''\<rparr>]))"

text \<open>A request to \<^verbatim>\<open>POST /token\<close>: the caller's address, the arrival time, the body's field.\<close>

record token_request =
  ip :: string
  at :: nat
  username :: string

text \<open>
  The route's last handler, behind the validation chain. It reads \<^verbatim>\<open>req.body.username\<close> after
  the chain's \<^verbatim>\<open>trim()\<close> has replaced it by the trimmed value.
\<close>

definition token_handler :: "mac \<Rightarrow> string option \<Rightarrow> token_request \<Rightarrow> response" where
  "token_handler sig env req =
     (let errors = validationResult (username req) in
        if errors \<noteq> [] then res_status_json 400 (Errors errors)
        else
          (let token = createToken sig env (trim (username req)) (at req)
           in res_json (AccessToken token)))"

text \<open>The options the source gives \<^verbatim>\<open>rateLimit\<close> (\<open>max_hits\<close> is its \<^verbatim>\<open>max\<close>).\<close>

record limiter_options =
  windowMs :: nat
  max_hits :: nat
  limit_message :: json

definition limiter_options :: limiter_options where
  "limiter_options =
     \<lparr>windowMs = 15 * 60 * 1000, max_hits = 5,
      limit_message = Message ''Too many requests, please try again later.''\<rparr>"

text \<open>Modelled from the spec: the store of express-rate-limit is not in the repository. The
  spec's rate window entry, \<^verbatim>\<open>{count, windowStart}\<close>, one for each client key.\<close>

record window_entry =
  count :: nat
  windowStart :: nat

type_synonym rate_state = "string \<Rightarrow> window_entry option"

datatype admission = Allowed | Rejected

text \<open>Modelled from the spec: the middleware that \<^verbatim>\<open>rateLimit(options)\<close> builds (the package
  express-rate-limit) is not in the repository. The spec's RateGovernor, fixed-window
  counting: if no window exists for the key or the existing one has expired
  (\<open>now - windowStart \<ge> windowDuration\<close>), start a new window with count 1 and allow;
  otherwise increment the count, and if the result exceeds the maximum reject without
  incrementing further, else allow. A rejection answers 429 with the configured message.\<close>

definition admit :: "limiter_options \<Rightarrow> rate_state \<Rightarrow> string \<Rightarrow> nat \<Rightarrow> admission \<times> rate_state" where
  "admit opts st clientKey now =
     (case st clientKey of
        None \<Rightarrow> (Allowed, st(clientKey \<mapsto> \<lparr>count = 1, windowStart = now\<rparr>))
      | Some e \<Rightarrow>
          if windowMs opts \<le> now - windowStart e then
            (Allowed, st(clientKey \<mapsto> \<lparr>count = 1, windowStart = now\<rparr>))
          else if max_hits opts < count e + 1 then (Rejected, st)
          else (Allowed, st(clientKey \<mapsto> e\<lparr>count := count e + 1\<rparr>)))"

text \<open>
  \<^verbatim>\<open>app.post("/token", limiter, [chain], handler)\<close>: the limiter is the first middleware of
  the route, the validation chain and the handler run only behind it.
\<close>

definition post_token ::
  "mac \<Rightarrow> string option \<Rightarrow> rate_state \<Rightarrow> token_request \<Rightarrow> response \<times> rate_state" where
  "post_token sig env st req =
     (case admit limiter_options st (ip req) (at req) of
        (Rejected, st') \<Rightarrow> (res_status_json 429 (limit_message limiter_options), st')
      | (Allowed, st') \<Rightarrow> (token_handler sig env req, st'))"

text \<open>The requests of a list served one after the other, from the limiter's state \<open>st\<close>.\<close>

fun serve ::
  "mac \<Rightarrow> string option \<Rightarrow> rate_state \<Rightarrow> token_request list \<Rightarrow> response list \<times> rate_state" where
  "serve sig env st [] = ([], st)"
| "serve sig env st (req # reqs) =
     (case post_token sig env st req of
        (r, st') \<Rightarrow>
          (case serve sig env st' reqs of
             (rs, st'') \<Rightarrow> (r # rs, st'')))"

section \<open>A signature primitive for the worked examples\<close>

text \<open>
  The examples below need some primitive to run on: here the signature is the secret
  followed by the message. No general statement depends on it.
\<close>

definition example_mac :: mac where
  "example_mac secret msg = secret @ msg"

section \<open>The encodings are invertible and produce neither a dot nor a space\<close>

lemma hex_val_all: "\<forall>n\<in>set [0..<16]. hex_val (hex_digits ! n) = Some n"
  by code_simp

lemma hex_val_digit: "n < 16 \<Longrightarrow> hex_val (hex_digits ! n) = Some n"
  using hex_val_all by simp

lemma dec_val_all: "\<forall>n\<in>set [0..<10]. dec_val (dec_digits ! n) = Some n"
  by code_simp

lemma dec_val_digit: "n < 10 \<Longrightarrow> dec_val (dec_digits ! n) = Some n"
  using dec_val_all by simp

lemma hex_digit_safe: "\<forall>n\<in>set [0..<16]. hex_digits ! n \<noteq> CHR ''.'' \<and> hex_digits ! n \<noteq> CHR '' ''"
  by code_simp

lemma dec_digit_safe: "\<forall>n\<in>set [0..<10]. dec_digits ! n \<noteq> CHR ''.'' \<and> dec_digits ! n \<noteq> CHR '' ''"
  by code_simp

lemma hex_digit_clean: "n < 16 \<Longrightarrow> hex_digits ! n \<noteq> CHR ''.'' \<and> hex_digits ! n \<noteq> CHR '' ''"
  using hex_digit_safe by simp

lemma dec_digit_clean: "n < 10 \<Longrightarrow> dec_digits ! n \<noteq> CHR ''.'' \<and> dec_digits ! n \<noteq> CHR '' ''"
  using dec_digit_safe by simp

lemma hex_decode_of_char: "hex_decode (hex_of_char c @ r) = map_option ((#) c) (hex_decode r)"
proof -
  have a: "(of_char c :: nat) div 16 < 16" 
    using nat_of_char_less_256 [of c] by (simp add: less_mult_imp_div_less)
  have b: "(of_char c :: nat) mod 16 < 16" by simp
  have "char_of (16 * ((of_char c :: nat) div 16) + (of_char c :: nat) mod 16) = c"
    by simp
  then show ?thesis
    by (simp add: hex_of_char_def hex_val_digit [OF a] hex_val_digit [OF b] split: option.split)
qed

lemma hex_decode_encode: "hex_decode (hex_encode s) = Some s"
  by (induction s) (simp_all add: hex_encode_def hex_decode_of_char)

lemma dec_value_append:
  "dec_value acc (xs @ ys) = (case dec_value acc xs of None \<Rightarrow> None | Some a \<Rightarrow> dec_value a ys)"
  by (induction xs arbitrary: acc) (simp_all split: option.split)

lemma dec_encode_not_Nil: "dec_encode n \<noteq> []"
  by (subst dec_encode.simps) simp

lemma dec_value_encode: "dec_value 0 (dec_encode n) = Some n"
proof (induction n rule: dec_encode.induct)
  case (1 n)
  show ?case
  proof (cases "n < 10")
    case True
    then show ?thesis
      by (subst dec_encode.simps) (simp add: dec_val_digit)
  next
    case False
    have d: "n mod 10 < 10" by simp
    from False 1 have "dec_value 0 (dec_encode (n div 10)) = Some (n div 10)" by simp
    with False show ?thesis
      by (subst dec_encode.simps) (simp add: dec_value_append dec_val_digit [OF d])
  qed
qed

lemma dec_decode_encode: "dec_decode (dec_encode n) = Some n"
  by (simp add: dec_decode_def dec_encode_not_Nil dec_value_encode)

lemma hex_encode_clean: "CHR ''.'' \<notin> set (hex_encode s) \<and> CHR '' '' \<notin> set (hex_encode s)"
proof (induction s)
  case Nil
  show ?case by (simp add: hex_encode_def)
next
  case (Cons c s)
  have a: "(of_char c :: nat) div 16 < 16" 
    using nat_of_char_less_256 [of c] by (simp add: less_mult_imp_div_less)
  have b: "(of_char c :: nat) mod 16 < 16" by simp
  from Cons hex_digit_clean [OF a] hex_digit_clean [OF b] show ?case
    by (auto simp: hex_encode_def hex_of_char_def)
qed

lemma dec_encode_clean: "CHR ''.'' \<notin> set (dec_encode n) \<and> CHR '' '' \<notin> set (dec_encode n)"
proof (induction n rule: dec_encode.induct)
  case (1 n)
  show ?case
  proof (cases "n < 10")
    case True
    with dec_digit_clean [of n] show ?thesis
      by (subst (1 2) dec_encode.simps) auto
  next
    case False
    have d: "n mod 10 < 10" by simp
    from False 1 dec_digit_clean [OF d] show ?thesis
      by (subst (1 2) dec_encode.simps) auto
  qed
qed

section \<open>Splitting\<close>

lemma startsWith_append: "startsWith (p @ s) p"
  by (simp add: startsWith_def)

lemma split_not_Nil: "split sep s \<noteq> []"
  by (induction s) (simp_all split: list.split)

lemma split_clean: "sep \<notin> set a \<Longrightarrow> split sep a = [a]"
  by (induction a) auto

lemma split_append: "sep \<notin> set a \<Longrightarrow> split sep (a @ sep # b) = a # split sep b"
  by (induction a) auto

lemma split_takeWhile:
  "split sep s = takeWhile (\<lambda>c. c \<noteq> sep) s #
     (case dropWhile (\<lambda>c. c \<noteq> sep) s of [] \<Rightarrow> [] | _ # r \<Rightarrow> split sep r)"
  by (induction s) (auto split: list.split)

lemma takeWhile_sep: "sep \<notin> set a \<Longrightarrow> takeWhile (\<lambda>c. c \<noteq> sep) (a @ sep # b) = a"
  by (induction a) auto

lemma startsWith_Bearer: "startsWith h ''Bearer '' \<Longrightarrow> h = ''Bearer '' @ drop 7 h"
proof -
  assume "startsWith h ''Bearer ''"
  then have t: "take (length ''Bearer '') h = ''Bearer ''"
    unfolding startsWith_def .
  have l: "length ''Bearer '' = 7"
    by simp
  from t have "take 7 h = ''Bearer ''"
    unfolding l .
  then have "take 7 h @ drop 7 h = ''Bearer '' @ drop 7 h"
    by (simp only:)
  then show ?thesis
    by (simp only: append_take_drop_id)
qed

lemma index_split_Bearer:
  "index (split CHR '' '' (''Bearer '' @ r)) 1 = Some (takeWhile (\<lambda>c. c \<noteq> CHR '' '') r)"
proof -
  have "split CHR '' '' (''Bearer '' @ r) = ''Bearer'' # split CHR '' '' r"
    using split_append [of "CHR '' ''" "''Bearer''" r] by simp
  then show ?thesis
    by (subst (asm) (2) split_takeWhile) (simp add: index_def del: split.simps)
qed

lemma bearer_token:
  "CHR '' '' \<notin> set token \<Longrightarrow> index (split CHR '' '' (''Bearer '' @ token)) 1 = Some token"
  using split_append [of "CHR '' ''" "''Bearer''" token]
  by (simp add: index_def split_clean)

section \<open>Signing, then verifying\<close>

lemma serialize_clean: "CHR '' '' \<notin> set (serialize c)"
  by (simp add: serialize_def hex_encode_clean dec_encode_clean)

lemma jwt_sign_clean: "CHR '' '' \<notin> set (jwt_sign sig user secret ttl now)"
  by (simp add: jwt_sign_def Let_def serialize_clean hex_encode_clean)

lemma split_jwt_sign:
  "split CHR ''.'' (jwt_sign sig user secret ttl now) =
     [hex_encode user, dec_encode now, dec_encode (now + ttl),
      hex_encode (sig secret (serialize \<lparr>subject = user, issuedAt = now, expiresAt = now + ttl\<rparr>))]"
  by (simp add: jwt_sign_def Let_def serialize_def split_append split_clean
      hex_encode_clean dec_encode_clean)

lemma parse_claim_encode:
  "parse_claim (hex_encode u) (dec_encode a) (dec_encode b) =
     Some \<lparr>subject = u, issuedAt = a, expiresAt = b\<rparr>"
  by (simp add: parse_claim_def hex_decode_encode dec_decode_encode)

lemma jwt_decode_sign:
  "jwt_decode (jwt_sign sig user secret ttl now) =
     Some \<lparr>subject = user, issuedAt = now, expiresAt = now + ttl\<rparr>"
  by (simp add: jwt_decode_def split_jwt_sign parse_claim_encode)

lemma jwt_verify_sign:
  "jwt_verify sig (jwt_sign sig user secret ttl now) secret t =
     (if t < now + ttl then Inr \<lparr>subject = user, issuedAt = now, expiresAt = now + ttl\<rparr>
      else Inl Expired)"
  by (simp add: jwt_verify_def split_jwt_sign parse_claim_encode serialize_def)

lemma hex_encode_inj: "hex_encode a = hex_encode b \<Longrightarrow> a = b"
proof -
  assume "hex_encode a = hex_encode b"
  then have "hex_decode (hex_encode a) = hex_decode (hex_encode b)"
    by simp
  then show "a = b"
    by (simp add: hex_decode_encode)
qed

lemma jwt_verify_other_secret:
  assumes "sig secret' (serialize \<lparr>subject = user, issuedAt = now, expiresAt = now + ttl\<rparr>) \<noteq>
     sig secret (serialize \<lparr>subject = user, issuedAt = now, expiresAt = now + ttl\<rparr>)"
  shows "jwt_verify sig (jwt_sign sig user secret' ttl now) secret t = Inl InvalidSignature"
  using assms
  by (auto simp add: jwt_verify_def split_jwt_sign parse_claim_encode serialize_def
      dest: hex_encode_inj)

lemma jwt_verify_Inr:
  assumes "jwt_verify sig token secret now = Inr c"
  shows "now < expiresAt c \<and>
     (\<exists>s i e. split CHR ''.'' token = [s, i, e, hex_encode (sig secret (s @ ''.'' @ i @ ''.'' @ e))] \<and>
        parse_claim s i e = Some c)"
  using assms
  by (auto simp: jwt_verify_def split: list.splits option.splits if_splits)

lemma authenticate_bearer:
  assumes "CHR '' '' \<notin> set token"
  shows "authenticate sig env t (Some (''Bearer '' @ token)) =
     (case jwt_verify sig token (SECRET_KEY env) t of
        Inl err \<Rightarrow> Respond (res_status_json 401 (Message ''Invalid or expired token''))
      | Inr decoded \<Rightarrow> Next (subject decoded))"
proof -
  have "startsWith (''Bearer '' @ token) ''Bearer ''"
    by (simp add: startsWith_def)
  moreover have "''Bearer '' @ token \<noteq> []"
    by simp
  ultimately show ?thesis
    unfolding authenticate_def using bearer_token [OF assms]
    by (simp del: split.simps)
qed

section \<open>The limiter and the route\<close>

lemma admit_frame: "k' \<noteq> k \<Longrightarrow> snd (admit opts st k t) k' = st k'"
  by (simp add: admit_def split: option.split)

lemma admit_local: "st k = st' k \<Longrightarrow> fst (admit opts st k t) = fst (admit opts st' k t)"
  by (simp add: admit_def split: option.split)

lemma post_token_alt:
  "post_token sig env st req =
     ((case fst (admit limiter_options st (ip req) (at req)) of
         Rejected \<Rightarrow> res_status_json 429 (limit_message limiter_options)
       | Allowed \<Rightarrow> token_handler sig env req),
      snd (admit limiter_options st (ip req) (at req)))"
  by (simp add: post_token_def split: prod.split admission.split)

lemma post_token_frame: "ip req \<noteq> k' \<Longrightarrow> snd (post_token sig env st req) k' = st k'"
  by (simp add: post_token_alt admit_frame)

lemma post_token_local:
  "st (ip req) = st' (ip req) \<Longrightarrow> fst (post_token sig env st req) = fst (post_token sig env st' req)"
  using admit_local [of st "ip req" st' limiter_options "at req"]
  by (simp add: post_token_alt)

lemma post_token_rejected:
  "fst (admit limiter_options st (ip req) (at req)) = Rejected \<Longrightarrow>
   post_token sig env st req =
     (\<lparr>status = 429, body = Message ''Too many requests, please try again later.''\<rparr>, st)"
  by (auto simp: post_token_def admit_def limiter_options_def res_status_json_def
      split: option.splits if_splits)

lemma post_token_allowed:
  "fst (admit limiter_options st (ip req) (at req)) = Allowed \<Longrightarrow>
   fst (post_token sig env st req) = token_handler sig env req"
  by (simp add: post_token_alt)

lemma serve_Cons:
  "snd (serve sig env st (r # reqs)) = snd (serve sig env (snd (post_token sig env st r)) reqs)"
  by (simp split: prod.split)

lemma fst_serve_Cons:
  "fst (serve sig env st (r # reqs)) =
     fst (post_token sig env st r) # fst (serve sig env (snd (post_token sig env st r)) reqs)"
  by (simp split: prod.split)

lemma serve_frame:
  "\<forall>r\<in>set reqs. ip r \<noteq> k' \<Longrightarrow> snd (serve sig env st reqs) k' = st k'"
proof (induction reqs arbitrary: st)
  case Nil
  show ?case by simp
next
  case (Cons r reqs)
  from Cons.prems have "snd (post_token sig env st r) k' = st k'"
    by (simp add: post_token_frame)
  moreover from Cons have "snd (serve sig env (snd (post_token sig env st r)) reqs) k' =
      snd (post_token sig env st r) k'"
    by simp
  ultimately show ?case
    by (simp only: serve_Cons)
qed

lemma post_token_first:
  assumes "case st k of None \<Rightarrow> True | Some e \<Rightarrow> windowMs limiter_options \<le> t - windowStart e"
  assumes "ip req = k" "at req = t"
  shows "post_token sig env st req =
     (token_handler sig env req, st(k \<mapsto> \<lparr>count = 1, windowStart = t\<rparr>))"
  using assms by (auto simp: post_token_def admit_def split: option.splits)

lemma post_token_within:
  assumes "st k = Some \<lparr>count = c, windowStart = t0\<rparr>" "ip req = k"
    "at req < t0 + windowMs limiter_options"
  shows "post_token sig env st req =
     (if c < 5 then (token_handler sig env req, st(k \<mapsto> \<lparr>count = c + 1, windowStart = t0\<rparr>))
      else (res_status_json 429 (Message ''Too many requests, please try again later.''), st))"
  using assms by (auto simp add: post_token_def admit_def limiter_options_def)

lemma serve_within:
  assumes "st k = Some \<lparr>count = c, windowStart = t0\<rparr>" "c \<le> 5"
    "\<forall>r\<in>set reqs. ip r = k \<longrightarrow> at r < t0 + windowMs limiter_options"
  shows "snd (serve sig env st reqs) k =
     Some \<lparr>count = min 5 (c + length (filter (\<lambda>r. ip r = k) reqs)), windowStart = t0\<rparr>"
  using assms
proof (induction reqs arbitrary: st c)
  case Nil
  then show ?case by simp
next
  case (Cons r reqs)
  let ?st = "snd (post_token sig env st r)"
  from Cons.prems have rest: "\<forall>r\<in>set reqs. ip r = k \<longrightarrow> at r < t0 + windowMs limiter_options"
    by simp
  show ?case
  proof (cases "ip r = k")
    case False
    with Cons.prems have "?st k = Some \<lparr>count = c, windowStart = t0\<rparr>"
      by (simp add: post_token_frame)
    from Cons.IH [of ?st c, OF this Cons.prems(2) rest] False show ?thesis
      by (simp only: serve_Cons) simp
  next
    case True
    with Cons.prems have w: "at r < t0 + windowMs limiter_options" by simp
    note pt = post_token_within [where st = st and k = k and sig = sig and env = env,
        OF Cons.prems(1) True w]
    show ?thesis
    proof (cases "c < 5")
      case c: True
      with pt have "?st k = Some \<lparr>count = c + 1, windowStart = t0\<rparr>"
        by simp
      moreover from c have "c + 1 \<le> 5" by simp
      ultimately have "snd (serve sig env ?st reqs) k =
          Some \<lparr>count = min 5 (c + 1 + length (filter (\<lambda>r. ip r = k) reqs)), windowStart = t0\<rparr>"
        using rest by (rule Cons.IH)
      with True show ?thesis
        by (simp only: serve_Cons) simp
    next
      case c: False
      with pt Cons.prems have "?st k = Some \<lparr>count = c, windowStart = t0\<rparr>"
        by simp
      from Cons.IH [of ?st c, OF this Cons.prems(2) rest] Cons.prems(2) c True show ?thesis
        by (simp only: serve_Cons) simp
    qed
  qed
qed

lemma serve_admitted:
  assumes "st k = Some \<lparr>count = c, windowStart = t0\<rparr>"
    "\<forall>r\<in>set reqs. ip r = k \<longrightarrow> at r < t0 + windowMs limiter_options"
    "c + length (filter (\<lambda>r. ip r = k) reqs) \<le> 5"
    "i < length reqs" "ip (reqs ! i) = k"
  shows "fst (serve sig env st reqs) ! i = token_handler sig env (reqs ! i)"
  using assms
proof (induction reqs arbitrary: st c i)
  case Nil
  then show ?case by simp
next
  case (Cons r reqs)
  let ?st = "snd (post_token sig env st r)"
  from Cons.prems have rest: "\<forall>r\<in>set reqs. ip r = k \<longrightarrow> at r < t0 + windowMs limiter_options"
    by simp
  show ?case
  proof (cases "ip r = k")
    case False
    with Cons.prems obtain j where j: "i = Suc j"
      by (cases i) auto
    from False Cons.prems have "?st k = Some \<lparr>count = c, windowStart = t0\<rparr>"
      by (simp add: post_token_frame)
    moreover from False Cons.prems have "c + length (filter (\<lambda>r. ip r = k) reqs) \<le> 5"
      by simp
    moreover from j Cons.prems have "j < length reqs" "ip (reqs ! j) = k"
      by simp_all
    ultimately have "fst (serve sig env ?st reqs) ! j = token_handler sig env (reqs ! j)"
      using rest by (intro Cons.IH [where c = c]) 
    with j show ?thesis
      by (simp only: fst_serve_Cons) simp
  next
    case True
    with Cons.prems have w: "at r < t0 + windowMs limiter_options" and c: "c < 5"
      by simp_all
    note pt = post_token_within [where st = st and k = k and sig = sig and env = env,
        OF Cons.prems(1) True w]
    show ?thesis
    proof (cases i)
      case 0
      with pt c show ?thesis
        by (simp only: fst_serve_Cons) simp
    next
      case (Suc j)
      from pt c have "?st k = Some \<lparr>count = c + 1, windowStart = t0\<rparr>"
        by simp
      moreover from True Cons.prems have "c + 1 + length (filter (\<lambda>r. ip r = k) reqs) \<le> 5"
        by simp
      moreover from Suc Cons.prems have "j < length reqs" "ip (reqs ! j) = k"
        by simp_all
      ultimately have "fst (serve sig env ?st reqs) ! j = token_handler sig env (reqs ! j)"
        using rest by (intro Cons.IH [where c = "c + 1"])
      with Suc show ?thesis
        by (simp only: fst_serve_Cons) simp
    qed
  qed
qed

section \<open>Validation\<close>

lemma validation_fails_iff: "(validationResult u \<noteq> []) = (length (trim u) < 3)"
  by (auto simp: validationResult_def Let_def notEmpty_def isLength_def)

lemma token_handler_invalid:
  "validationResult (username req) \<noteq> [] \<Longrightarrow>
   token_handler sig env req = \<lparr>status = 400, body = Errors (validationResult (username req))\<rparr>"
  by (simp add: token_handler_def Let_def res_status_json_def)

lemma token_handler_valid:
  "validationResult (username req) = [] \<Longrightarrow>
   token_handler sig env req =
     \<lparr>status = 200, body = AccessToken (createToken sig env (trim (username req)) (at req))\<rparr>"
  by (simp add: token_handler_def Let_def res_json_def)

lemma trim_examples:
  "trim '''' = ''''" "trim ''  '' = ''''" "trim ''ab'' = ''ab''" "trim ''abc'' = ''abc''"
  by (simp_all add: trim_def whitespace_def)

section \<open>The claims\<close>

subsection \<open>C1: a token that was just issued decodes to its subject\<close>

text \<open>
  C1. Round trip: whatever the subject \<open>s\<close> (in particular every \<open>s\<close> of length at least 3,
  the ones the route signs), the token that \<open>createToken\<close> makes for \<open>s\<close> at the time \<open>now\<close>,
  presented to \<open>authenticate\<close> as \<^verbatim>\<open>Bearer <token>\<close> under the same secret at a time \<open>t\<close>
  before the hour has elapsed, is accepted, and the identity handed on is \<open>s\<close> itself.
\<close>

theorem token_roundtrip:
  assumes "t < now + one_hour"
  shows "authenticate sig env t (Some (''Bearer '' @ createToken sig env s now)) = Next s"
proof -
  let ?token = "createToken sig env s now"
  have "CHR '' '' \<notin> set ?token"
    unfolding createToken_def by (rule jwt_sign_clean)
  then have "authenticate sig env t (Some (''Bearer '' @ ?token)) =
     (case jwt_verify sig ?token (SECRET_KEY env) t of
        Inl err \<Rightarrow> Respond (res_status_json 401 (Message ''Invalid or expired token''))
      | Inr decoded \<Rightarrow> Next (subject decoded))"
    by (rule authenticate_bearer)
  also have "jwt_verify sig ?token (SECRET_KEY env) t =
     Inr \<lparr>subject = s, issuedAt = now, expiresAt = now + one_hour\<rparr>"
    using assms by (simp add: createToken_def jwt_verify_sign)
  finally show ?thesis by simp
qed

theorem token_roundtrip_witness:
  "authenticate example_mac None 1000
     (Some (''Bearer '' @ createToken example_mac None ''alice'' 1000)) = Next ''alice''"
  using token_roundtrip [where t = 1000 and now = 1000 and sig = example_mac and env = None
      and s = "''alice''"]
  by (simp add: one_hour_def)

subsection \<open>C2: the sixth request of a window is refused\<close>

text \<open>
  C2. Rate limiting, with at most 5 requests in a window of \<open>windowMs limiter_options\<close>
  milliseconds. Three parts.

  (1) Let the request \<open>r1\<close> of the client \<open>k\<close> open a window (the client has none, or its
  window has expired), and let \<open>reqs\<close> be the requests served after it, from any clients,
  four of them from \<open>k\<close>, all of those within the window. Then each of these five requests of
  \<open>k\<close> gets the answer of the handler, and a further request \<open>r6\<close> of \<open>k\<close> within the window
  is answered 429 with the message \<^verbatim>\<open>Too many requests, please try again later.\<close>

  (2) Requests of other clients served before it change nothing in the answer a client gets.

  (3) Once the window of a client has elapsed, its next request is admitted, whatever its
  count was, and opens a new window with count 1.
\<close>

theorem rate_limiting:
  "((case st k of None \<Rightarrow> True | Some e \<Rightarrow> windowMs limiter_options \<le> at r1 - windowStart e) \<and>
    ip r1 = k \<and> (\<forall>r\<in>set reqs. ip r = k \<longrightarrow> at r < at r1 + windowMs limiter_options) \<and>
    length (filter (\<lambda>r. ip r = k) reqs) = 4 \<and>
    ip r6 = k \<and> at r6 < at r1 + windowMs limiter_options \<longrightarrow>
    (\<forall>i<length (r1 # reqs). ip ((r1 # reqs) ! i) = k \<longrightarrow>
       fst (serve sig env st (r1 # reqs)) ! i = token_handler sig env ((r1 # reqs) ! i)) \<and>
    fst (post_token sig env (snd (serve sig env st (r1 # reqs))) r6) =
      \<lparr>status = 429, body = Message ''Too many requests, please try again later.''\<rparr>) \<and>
   ((\<forall>r\<in>set others. ip r \<noteq> ip req) \<longrightarrow>
    fst (post_token sig env (snd (serve sig env st others)) req) = fst (post_token sig env st req)) \<and>
   (st (ip req) = Some e \<and> windowMs limiter_options \<le> at req - windowStart e \<longrightarrow>
    post_token sig env st req =
      (token_handler sig env req, st(ip req \<mapsto> \<lparr>count = 1, windowStart = at req\<rparr>)))"
proof (intro conjI impI)
  assume a: "(case st k of None \<Rightarrow> True | Some e \<Rightarrow> windowMs limiter_options \<le> at r1 - windowStart e) \<and>
    ip r1 = k \<and> (\<forall>r\<in>set reqs. ip r = k \<longrightarrow> at r < at r1 + windowMs limiter_options) \<and>
    length (filter (\<lambda>r. ip r = k) reqs) = 4 \<and>
    ip r6 = k \<and> at r6 < at r1 + windowMs limiter_options"
  let ?st1 = "snd (post_token sig env st r1)"
  let ?st5 = "snd (serve sig env ?st1 reqs)"
  from a have first: "post_token sig env st r1 =
      (token_handler sig env r1, st(k \<mapsto> \<lparr>count = 1, windowStart = at r1\<rparr>))"
    by (intro post_token_first) simp_all
  then have st1: "?st1 k = Some \<lparr>count = 1, windowStart = at r1\<rparr>"
    by simp
  from a have within: "\<forall>r\<in>set reqs. ip r = k \<longrightarrow> at r < at r1 + windowMs limiter_options"
    by simp
  from a have five: "1 + length (filter (\<lambda>r. ip r = k) reqs) \<le> 5"
    by simp
  have "fst (serve sig env st (r1 # reqs)) ! i = token_handler sig env ((r1 # reqs) ! i)"
    if i: "i < length (r1 # reqs)" and k: "ip ((r1 # reqs) ! i) = k" for i
  proof (cases i)
    case 0
    with first show ?thesis
      by (simp only: fst_serve_Cons) simp
  next
    case (Suc j)
    with i k have "j < length reqs" "ip (reqs ! j) = k"
      by simp_all
    with st1 within five
    have "fst (serve sig env ?st1 reqs) ! j = token_handler sig env (reqs ! j)"
      by (intro serve_admitted [where c = 1 and k = k and ?t0.0 = "at r1"])
    with Suc show ?thesis
      by (simp only: fst_serve_Cons) simp
  qed
  then show "\<forall>i<length (r1 # reqs). ip ((r1 # reqs) ! i) = k \<longrightarrow>
       fst (serve sig env st (r1 # reqs)) ! i = token_handler sig env ((r1 # reqs) ! i)"
    by blast
  have "(1::nat) \<le> 5"
    by simp
  with st1 have "?st5 k =
      Some \<lparr>count = min 5 (1 + length (filter (\<lambda>r. ip r = k) reqs)), windowStart = at r1\<rparr>"
    using within by (rule serve_within)
  with a have "?st5 k = Some \<lparr>count = 5, windowStart = at r1\<rparr>"
    by simp
  from post_token_within [where st = ?st5 and k = k and req = r6 and sig = sig and env = env,
      OF this] a
  show "fst (post_token sig env (snd (serve sig env st (r1 # reqs))) r6) =
      \<lparr>status = 429, body = Message ''Too many requests, please try again later.''\<rparr>"
    by (simp only: serve_Cons) (simp add: res_status_json_def)
next
  assume "\<forall>r\<in>set others. ip r \<noteq> ip req"
  then have "snd (serve sig env st others) (ip req) = st (ip req)"
    by (rule serve_frame)
  then show "fst (post_token sig env (snd (serve sig env st others)) req) =
      fst (post_token sig env st req)"
    by (rule post_token_local)
next
  assume "st (ip req) = Some e \<and> windowMs limiter_options \<le> at req - windowStart e"
  then show "post_token sig env st req =
      (token_handler sig env req, st(ip req \<mapsto> \<lparr>count = 1, windowStart = at req\<rparr>))"
    by (intro post_token_first) simp_all
qed

text \<open>
  Five requests of 10.0.0.1 within a quarter of an hour, one of 10.0.0.2 among them, then a
  sixth; a request of 10.0.0.2 after five of 10.0.0.1; and a request of a client whose
  count is 5, exactly a quarter of an hour after its window started.
\<close>

theorem rate_limiting_witness:
  "fst (post_token example_mac None
     (snd (serve example_mac None Map.empty
        [\<lparr>ip = ''10.0.0.1'', at = 0, username = ''alice''\<rparr>,
         \<lparr>ip = ''10.0.0.1'', at = 10, username = ''alice''\<rparr>,
         \<lparr>ip = ''10.0.0.2'', at = 20, username = ''bob''\<rparr>,
         \<lparr>ip = ''10.0.0.1'', at = 30, username = ''alice''\<rparr>,
         \<lparr>ip = ''10.0.0.1'', at = 40, username = ''alice''\<rparr>,
         \<lparr>ip = ''10.0.0.1'', at = 50, username = ''alice''\<rparr>]))
     \<lparr>ip = ''10.0.0.1'', at = 899999, username = ''alice''\<rparr>) =
     \<lparr>status = 429, body = Message ''Too many requests, please try again later.''\<rparr> \<and>
   fst (post_token example_mac None
     (snd (serve example_mac None Map.empty
        [\<lparr>ip = ''10.0.0.1'', at = 0, username = ''alice''\<rparr>,
         \<lparr>ip = ''10.0.0.1'', at = 10, username = ''alice''\<rparr>,
         \<lparr>ip = ''10.0.0.1'', at = 30, username = ''alice''\<rparr>,
         \<lparr>ip = ''10.0.0.1'', at = 40, username = ''alice''\<rparr>,
         \<lparr>ip = ''10.0.0.1'', at = 50, username = ''alice''\<rparr>]))
     \<lparr>ip = ''10.0.0.2'', at = 60, username = ''bob''\<rparr>) =
     fst (post_token example_mac None Map.empty \<lparr>ip = ''10.0.0.2'', at = 60, username = ''bob''\<rparr>) \<and>
   post_token example_mac None [''10.0.0.1'' \<mapsto> \<lparr>count = 5, windowStart = 0\<rparr>]
     \<lparr>ip = ''10.0.0.1'', at = 900000, username = ''alice''\<rparr> =
     (token_handler example_mac None \<lparr>ip = ''10.0.0.1'', at = 900000, username = ''alice''\<rparr>,
      [''10.0.0.1'' \<mapsto> \<lparr>count = 1, windowStart = 900000\<rparr>])"
proof -
  have w: "windowMs limiter_options = 900000"
    by (simp add: limiter_options_def)
  note sixth = rate_limiting [where st = Map.empty and k = "''10.0.0.1''"
      and ?r1.0 = "\<lparr>ip = ''10.0.0.1'', at = 0, username = ''alice''\<rparr>"
      and reqs = "[\<lparr>ip = ''10.0.0.1'', at = 10, username = ''alice''\<rparr>,
         \<lparr>ip = ''10.0.0.2'', at = 20, username = ''bob''\<rparr>,
         \<lparr>ip = ''10.0.0.1'', at = 30, username = ''alice''\<rparr>,
         \<lparr>ip = ''10.0.0.1'', at = 40, username = ''alice''\<rparr>,
         \<lparr>ip = ''10.0.0.1'', at = 50, username = ''alice''\<rparr>]"
      and ?r6.0 = "\<lparr>ip = ''10.0.0.1'', at = 899999, username = ''alice''\<rparr>"
      and sig = example_mac and env = None, THEN conjunct1]
  note other = rate_limiting [where st = Map.empty and sig = example_mac and env = None
      and others = "[\<lparr>ip = ''10.0.0.1'', at = 0, username = ''alice''\<rparr>,
         \<lparr>ip = ''10.0.0.1'', at = 10, username = ''alice''\<rparr>,
         \<lparr>ip = ''10.0.0.1'', at = 30, username = ''alice''\<rparr>,
         \<lparr>ip = ''10.0.0.1'', at = 40, username = ''alice''\<rparr>,
         \<lparr>ip = ''10.0.0.1'', at = 50, username = ''alice''\<rparr>]"
      and req = "\<lparr>ip = ''10.0.0.2'', at = 60, username = ''bob''\<rparr>",
      THEN conjunct2, THEN conjunct1]
  note reset = rate_limiting [where st = "[''10.0.0.1'' \<mapsto> \<lparr>count = 5, windowStart = 0\<rparr>]"
      and req = "\<lparr>ip = ''10.0.0.1'', at = 900000, username = ''alice''\<rparr>"
      and e = "\<lparr>count = 5, windowStart = 0\<rparr>" and sig = example_mac and env = None,
      THEN conjunct2, THEN conjunct2]
  from sixth have
    "fst (post_token example_mac None
       (snd (serve example_mac None Map.empty
          [\<lparr>ip = ''10.0.0.1'', at = 0, username = ''alice''\<rparr>,
           \<lparr>ip = ''10.0.0.1'', at = 10, username = ''alice''\<rparr>,
           \<lparr>ip = ''10.0.0.2'', at = 20, username = ''bob''\<rparr>,
           \<lparr>ip = ''10.0.0.1'', at = 30, username = ''alice''\<rparr>,
           \<lparr>ip = ''10.0.0.1'', at = 40, username = ''alice''\<rparr>,
           \<lparr>ip = ''10.0.0.1'', at = 50, username = ''alice''\<rparr>]))
       \<lparr>ip = ''10.0.0.1'', at = 899999, username = ''alice''\<rparr>) =
       \<lparr>status = 429, body = Message ''Too many requests, please try again later.''\<rparr>"
    by (simp add: w del: serve.simps)
  moreover from other have
    "fst (post_token example_mac None
       (snd (serve example_mac None Map.empty
          [\<lparr>ip = ''10.0.0.1'', at = 0, username = ''alice''\<rparr>,
           \<lparr>ip = ''10.0.0.1'', at = 10, username = ''alice''\<rparr>,
           \<lparr>ip = ''10.0.0.1'', at = 30, username = ''alice''\<rparr>,
           \<lparr>ip = ''10.0.0.1'', at = 40, username = ''alice''\<rparr>,
           \<lparr>ip = ''10.0.0.1'', at = 50, username = ''alice''\<rparr>]))
       \<lparr>ip = ''10.0.0.2'', at = 60, username = ''bob''\<rparr>) =
       fst (post_token example_mac None Map.empty
         \<lparr>ip = ''10.0.0.2'', at = 60, username = ''bob''\<rparr>)"
    by (simp del: serve.simps)
  moreover from reset have
    "post_token example_mac None [''10.0.0.1'' \<mapsto> \<lparr>count = 5, windowStart = 0\<rparr>]
       \<lparr>ip = ''10.0.0.1'', at = 900000, username = ''alice''\<rparr> =
       (token_handler example_mac None \<lparr>ip = ''10.0.0.1'', at = 900000, username = ''alice''\<rparr>,
        [''10.0.0.1'' \<mapsto> \<lparr>count = 1, windowStart = 900000\<rparr>])"
    by (simp add: w)
  ultimately show ?thesis
    by (simp only: simp_thms)
qed

subsection \<open>C3: a validation failure is answered 400 with the list of errors\<close>

text \<open>
  C3. For a request whose username fails validation (\<open>validationResult\<close> is not empty, that
  is, the trimmed username has fewer than 3 characters), the handler behind the validation
  chain answers with status 400 and the body \<^verbatim>\<open>{ errors: [...] }\<close>; each element of the list
  names the field \<^verbatim>\<open>username\<close> and carries one of the two messages of the chain. This is the
  answer of the route whenever the limiter lets the request through.
\<close>

theorem validation_failure_400:
  assumes "validationResult (username req) \<noteq> []"
  shows "token_handler sig env req =
       \<lparr>status = 400, body = Errors (validationResult (username req))\<rparr> \<and>
     (\<forall>e\<in>set (validationResult (username req)).
        field e = ''username'' \<and>
        (message e = ''Username is required'' \<or>
         message e = ''Username must be at least 3 characters long'')) \<and>
     (fst (admit limiter_options st (ip req) (at req)) = Allowed \<longrightarrow>
        fst (post_token sig env st req) =
          \<lparr>status = 400, body = Errors (validationResult (username req))\<rparr>)"
proof (intro conjI impI)
  show h: "token_handler sig env req =
      \<lparr>status = 400, body = Errors (validationResult (username req))\<rparr>"
    using assms by (rule token_handler_invalid)
  show "\<forall>e\<in>set (validationResult (username req)).
        field e = ''username'' \<and>
        (message e = ''Username is required'' \<or>
         message e = ''Username must be at least 3 characters long'')"
    by (simp add: validationResult_def Let_def)
  assume "fst (admit limiter_options st (ip req) (at req)) = Allowed"
  then show "fst (post_token sig env st req) =
      \<lparr>status = 400, body = Errors (validationResult (username req))\<rparr>"
    using h by (simp add: post_token_allowed)
qed

theorem validation_failure_400_witness:
  "token_handler example_mac None \<lparr>ip = ''10.0.0.1'', at = 0, username = '' a ''\<rparr> =
     \<lparr>status = 400, body = Errors
        [\<lparr>field = ''username'',
          message = ''Username must be at least 3 characters long''\<rparr>]\<rparr> \<and>
   fst (post_token example_mac None Map.empty \<lparr>ip = ''10.0.0.1'', at = 0, username = '' a ''\<rparr>) =
     \<lparr>status = 400, body = Errors
        [\<lparr>field = ''username'',
          message = ''Username must be at least 3 characters long''\<rparr>]\<rparr>"
proof -
  have v: "validationResult '' a '' =
      [\<lparr>field = ''username'', message = ''Username must be at least 3 characters long''\<rparr>]"
    by (simp add: validationResult_def trim_def whitespace_def notEmpty_def isLength_def)
  have a: "fst (admit limiter_options Map.empty ''10.0.0.1'' 0) = Allowed"
    by (simp add: admit_def)
  from validation_failure_400 [where req = "\<lparr>ip = ''10.0.0.1'', at = 0, username = '' a ''\<rparr>"
      and sig = example_mac and env = None and st = Map.empty] v a
  show ?thesis
    by simp
qed

subsection \<open>C4: the rate check comes first\<close>

text \<open>
  C4 says that the username is validated before the rate check, so that an invalid username
  is answered 400 even when the client's budget is exhausted. The route has the limiter as its
  first middleware: the sixth request of a client within a window is answered 429 although
  its username is empty.
\<close>

theorem validation_first_counterexample:
  "validationResult '''' \<noteq> [] \<and>
   fst (post_token example_mac None
     (snd (serve example_mac None Map.empty
        [\<lparr>ip = ''10.0.0.1'', at = 0, username = ''''\<rparr>,
         \<lparr>ip = ''10.0.0.1'', at = 1, username = ''''\<rparr>,
         \<lparr>ip = ''10.0.0.1'', at = 2, username = ''''\<rparr>,
         \<lparr>ip = ''10.0.0.1'', at = 3, username = ''''\<rparr>,
         \<lparr>ip = ''10.0.0.1'', at = 4, username = ''''\<rparr>]))
     \<lparr>ip = ''10.0.0.1'', at = 5, username = ''''\<rparr>) =
   \<lparr>status = 429, body = Message ''Too many requests, please try again later.''\<rparr>"
  by (simp add: validationResult_def trim_def notEmpty_def post_token_alt admit_def
      limiter_options_def res_status_json_def)

text \<open>
  C4, amended. The rate check comes before the validation. A request that the limiter
  rejects is answered 429 with the limiter's message whatever its username, no token is
  created and the limiter's state is left as it was. A request that the limiter admits and
  whose username is invalid is answered 400 with the validation errors.
\<close>

theorem rate_check_before_validation:
  "(fst (admit limiter_options st (ip req) (at req)) = Rejected \<longrightarrow>
      post_token sig env st req =
        (\<lparr>status = 429, body = Message ''Too many requests, please try again later.''\<rparr>, st)) \<and>
   (fst (admit limiter_options st (ip req) (at req)) = Allowed \<and>
    validationResult (username req) \<noteq> [] \<longrightarrow>
      fst (post_token sig env st req) =
        \<lparr>status = 400, body = Errors (validationResult (username req))\<rparr>)"
  by (simp add: post_token_rejected post_token_allowed token_handler_invalid)

theorem rate_check_before_validation_witness:
  "post_token example_mac None [''10.0.0.1'' \<mapsto> \<lparr>count = 5, windowStart = 0\<rparr>]
     \<lparr>ip = ''10.0.0.1'', at = 5, username = ''''\<rparr> =
     (\<lparr>status = 429, body = Message ''Too many requests, please try again later.''\<rparr>,
      [''10.0.0.1'' \<mapsto> \<lparr>count = 5, windowStart = 0\<rparr>]) \<and>
   fst (post_token example_mac None Map.empty \<lparr>ip = ''10.0.0.1'', at = 5, username = ''''\<rparr>) =
     \<lparr>status = 400, body = Errors
        [\<lparr>field = ''username'', message = ''Username is required''\<rparr>,
         \<lparr>field = ''username'',
          message = ''Username must be at least 3 characters long''\<rparr>]\<rparr>"
proof -
  have v: "validationResult '''' =
      [\<lparr>field = ''username'', message = ''Username is required''\<rparr>,
       \<lparr>field = ''username'', message = ''Username must be at least 3 characters long''\<rparr>]"
    by (simp add: validationResult_def trim_def notEmpty_def isLength_def)
  have r: "fst (admit limiter_options [''10.0.0.1'' \<mapsto> \<lparr>count = 5, windowStart = 0\<rparr>]
      ''10.0.0.1'' 5) = Rejected"
    by (simp add: admit_def limiter_options_def)
  have a: "fst (admit limiter_options Map.empty ''10.0.0.1'' 5) = Allowed"
    by (simp add: admit_def)
  from rate_check_before_validation [where st = "[''10.0.0.1'' \<mapsto> \<lparr>count = 5, windowStart = 0\<rparr>]"
      and req = "\<lparr>ip = ''10.0.0.1'', at = 5, username = ''''\<rparr>" and sig = example_mac
      and env = None] r
  have "post_token example_mac None [''10.0.0.1'' \<mapsto> \<lparr>count = 5, windowStart = 0\<rparr>]
     \<lparr>ip = ''10.0.0.1'', at = 5, username = ''''\<rparr> =
     (\<lparr>status = 429, body = Message ''Too many requests, please try again later.''\<rparr>,
      [''10.0.0.1'' \<mapsto> \<lparr>count = 5, windowStart = 0\<rparr>])"
    by simp
  moreover
  from rate_check_before_validation [where st = Map.empty
      and req = "\<lparr>ip = ''10.0.0.1'', at = 5, username = ''''\<rparr>" and sig = example_mac
      and env = None] a v
  have "fst (post_token example_mac None Map.empty
      \<lparr>ip = ''10.0.0.1'', at = 5, username = ''''\<rparr>) =
     \<lparr>status = 400, body = Errors
        [\<lparr>field = ''username'', message = ''Username is required''\<rparr>,
         \<lparr>field = ''username'',
          message = ''Username must be at least 3 characters long''\<rparr>]\<rparr>"
    by simp
  ultimately show ?thesis
    by (simp only: simp_thms)
qed

subsection \<open>C5: which usernames pass\<close>

text \<open>
  C5. From any caller and at any time, the handler behind the validation chain answers the
  usernames \<^verbatim>\<open>""\<close>, \<^verbatim>\<open>"  "\<close> and \<^verbatim>\<open>"ab"\<close> with status 400 and validation errors, and the username
  \<^verbatim>\<open>"abc"\<close> with \<^verbatim>\<open>{ access_token: token }\<close>, the token being the one \<open>createToken\<close> makes for
  \<^verbatim>\<open>"abc"\<close>; these are also the answers of the whole route to a client's first request.
\<close>

theorem validation_acceptance:
  "token_handler sig env \<lparr>ip = a, at = t, username = ''''\<rparr> =
     \<lparr>status = 400, body = Errors
        [\<lparr>field = ''username'', message = ''Username is required''\<rparr>,
         \<lparr>field = ''username'', message = ''Username must be at least 3 characters long''\<rparr>]\<rparr> \<and>
   token_handler sig env \<lparr>ip = a, at = t, username = ''  ''\<rparr> =
     \<lparr>status = 400, body = Errors
        [\<lparr>field = ''username'', message = ''Username is required''\<rparr>,
         \<lparr>field = ''username'', message = ''Username must be at least 3 characters long''\<rparr>]\<rparr> \<and>
   token_handler sig env \<lparr>ip = a, at = t, username = ''ab''\<rparr> =
     \<lparr>status = 400, body = Errors
        [\<lparr>field = ''username'', message = ''Username must be at least 3 characters long''\<rparr>]\<rparr> \<and>
   token_handler sig env \<lparr>ip = a, at = t, username = ''abc''\<rparr> =
     \<lparr>status = 200, body = AccessToken (createToken sig env ''abc'' t)\<rparr> \<and>
   status (fst (post_token sig env Map.empty \<lparr>ip = a, at = t, username = ''''\<rparr>)) = 400 \<and>
   status (fst (post_token sig env Map.empty \<lparr>ip = a, at = t, username = ''  ''\<rparr>)) = 400 \<and>
   status (fst (post_token sig env Map.empty \<lparr>ip = a, at = t, username = ''ab''\<rparr>)) = 400 \<and>
   fst (post_token sig env Map.empty \<lparr>ip = a, at = t, username = ''abc''\<rparr>) =
     \<lparr>status = 200, body = AccessToken (createToken sig env ''abc'' t)\<rparr>"
  by (simp add: post_token_alt admit_def token_handler_def validationResult_def Let_def
      trim_examples notEmpty_def isLength_def res_status_json_def res_json_def)

subsection \<open>C6: one answer for every decode failure\<close>

text \<open>
  C6. When the header starts with \<^verbatim>\<open>Bearer \<close> and the verification of the extracted token
  fails, with whichever of the three errors, \<open>authenticate\<close> answers 401 with the one message
  \<^verbatim>\<open>Invalid or expired token\<close>, and that is the answer of the protected route.
\<close>

theorem decode_failure_401:
  assumes "startsWith h ''Bearer ''"
    and "index (split CHR '' '' h) 1 = Some token"
    and "jwt_verify sig token (SECRET_KEY env) now = Inl err"
  shows "authenticate sig env now (Some h) =
       Respond \<lparr>status = 401, body = Message ''Invalid or expired token''\<rparr> \<and>
     secure_data sig env now (Some h) =
       \<lparr>status = 401, body = Message ''Invalid or expired token''\<rparr>"
proof -
  from assms(1) have "h \<noteq> []"
    by (auto simp: startsWith_def)
  with assms show ?thesis
    by (simp add: secure_data_def authenticate_def res_status_json_def del: split.simps)
qed

text \<open>
  The three kinds: a token that does not parse, a token signed under another secret, and
  a token presented one hour after it was issued.
\<close>

theorem decode_failure_401_witness:
  "jwt_verify example_mac ''garbage'' (SECRET_KEY None) 0 = Inl Malformed \<and>
   authenticate example_mac None 0 (Some ''Bearer garbage'') =
     Respond \<lparr>status = 401, body = Message ''Invalid or expired token''\<rparr> \<and>
   jwt_verify example_mac (createToken example_mac (Some ''other'') ''alice'' 0)
     (SECRET_KEY None) 0 = Inl InvalidSignature \<and>
   authenticate example_mac None 0
     (Some (''Bearer '' @ createToken example_mac (Some ''other'') ''alice'' 0)) =
     Respond \<lparr>status = 401, body = Message ''Invalid or expired token''\<rparr> \<and>
   jwt_verify example_mac (createToken example_mac None ''alice'' 0)
     (SECRET_KEY None) 3600000 = Inl Expired \<and>
   authenticate example_mac None 3600000
     (Some (''Bearer '' @ createToken example_mac None ''alice'' 0)) =
     Respond \<lparr>status = 401, body = Message ''Invalid or expired token''\<rparr>"
proof -
  have m: "jwt_verify example_mac ''garbage'' (SECRET_KEY None) 0 = Inl Malformed"
    by (simp add: jwt_verify_def)
  have m1: "startsWith ''Bearer garbage'' ''Bearer ''"
    by (simp add: startsWith_def)
  have m2: "index (split CHR '' '' ''Bearer garbage'') 1 = Some ''garbage''"
    by (simp add: index_def)
  have i: "jwt_verify example_mac (createToken example_mac (Some ''other'') ''alice'' 0)
      (SECRET_KEY None) 0 = Inl InvalidSignature"
    unfolding createToken_def
    by (rule jwt_verify_other_secret) (simp add: example_mac_def SECRET_KEY_def)
  have i1: "startsWith (''Bearer '' @ createToken example_mac (Some ''other'') ''alice'' 0)
      ''Bearer ''"
    by (rule startsWith_append)
  have i2: "index (split CHR '' ''
      (''Bearer '' @ createToken example_mac (Some ''other'') ''alice'' 0)) 1 =
      Some (createToken example_mac (Some ''other'') ''alice'' 0)"
    unfolding createToken_def by (rule bearer_token) (rule jwt_sign_clean)
  have e: "jwt_verify example_mac (createToken example_mac None ''alice'' 0)
      (SECRET_KEY None) 3600000 = Inl Expired"
    by (simp add: createToken_def jwt_verify_sign one_hour_def)
  have e1: "startsWith (''Bearer '' @ createToken example_mac None ''alice'' 0) ''Bearer ''"
    by (rule startsWith_append)
  have e2: "index (split CHR '' '' (''Bearer '' @ createToken example_mac None ''alice'' 0)) 1 =
      Some (createToken example_mac None ''alice'' 0)"
    unfolding createToken_def by (rule bearer_token) (rule jwt_sign_clean)
  from decode_failure_401 [OF m1 m2 m] decode_failure_401 [OF i1 i2 i]
    decode_failure_401 [OF e1 e2 e] m i e
  show ?thesis
    by (simp only: simp_thms)
qed

subsection \<open>C7: no header, or no bearer prefix\<close>

text \<open>
  C7. When the request has no \<^verbatim>\<open>Authorization\<close> header, or one that does not start with
  \<^verbatim>\<open>Bearer \<close>, \<open>authenticate\<close> answers 401 with the message \<^verbatim>\<open>Unauthorized: No token provided\<close>
  and does not call \<^verbatim>\<open>next()\<close>: the protected route's answer is that response, not the greeting.
\<close>

theorem no_token_provided:
  "authenticate sig env now None =
     Respond \<lparr>status = 401, body = Message ''Unauthorized: No token provided''\<rparr> \<and>
   secure_data sig env now None =
     \<lparr>status = 401, body = Message ''Unauthorized: No token provided''\<rparr> \<and>
   (\<not> startsWith h ''Bearer '' \<longrightarrow>
      authenticate sig env now (Some h) =
        Respond \<lparr>status = 401, body = Message ''Unauthorized: No token provided''\<rparr> \<and>
      secure_data sig env now (Some h) =
        \<lparr>status = 401, body = Message ''Unauthorized: No token provided''\<rparr>)"
  by (simp add: secure_data_def authenticate_def res_status_json_def)

theorem no_token_provided_witness:
  "authenticate example_mac None 0 (Some ''Basic abc'') =
     Respond \<lparr>status = 401, body = Message ''Unauthorized: No token provided''\<rparr> \<and>
   secure_data example_mac None 0 (Some ''Basic abc'') =
     \<lparr>status = 401, body = Message ''Unauthorized: No token provided''\<rparr> \<and>
   authenticate example_mac None 0 (Some ''bearer abc'') =
     Respond \<lparr>status = 401, body = Message ''Unauthorized: No token provided''\<rparr>"
proof -
  have "\<not> startsWith ''Basic abc'' ''Bearer ''" and "\<not> startsWith ''bearer abc'' ''Bearer ''"
    by (simp_all add: startsWith_def)
  with no_token_provided [where h = "''Basic abc''" and sig = example_mac and env = None
      and now = 0]
    no_token_provided [where h = "''bearer abc''" and sig = example_mac and env = None
      and now = 0]
  show ?thesis
    by (simp only: simp_thms)
qed

subsection \<open>C8: the claim inside an issued token\<close>

text \<open>
  C8. Whenever the route answers with an access token, the claim that the token carries has
  \<open>expiresAt = issuedAt + 1 hour\<close> (3600000 ms), was issued at the time of the request, and its
  subject is the trimmed username, which is not empty and has at least 3 characters.
\<close>

theorem issued_claim_invariant:
  assumes "body (fst (post_token sig env st req)) = AccessToken token"
  shows "\<exists>c. jwt_decode token = Some c \<and>
     expiresAt c = issuedAt c + 60 * 60 * 1000 \<and> issuedAt c = at req \<and>
     subject c = trim (username req) \<and> subject c \<noteq> [] \<and> 3 \<le> length (subject c)"
proof -
  have adm: "fst (admit limiter_options st (ip req) (at req)) = Allowed"
  proof (rule ccontr)
    assume "fst (admit limiter_options st (ip req) (at req)) \<noteq> Allowed"
    then have "fst (admit limiter_options st (ip req) (at req)) = Rejected"
      by (cases "fst (admit limiter_options st (ip req) (at req))") simp_all
    with assms show False
      by (simp add: post_token_rejected)
  qed
  with assms have h: "body (token_handler sig env req) = AccessToken token"
    by (simp add: post_token_allowed)
  have ok: "validationResult (username req) = []"
  proof (rule ccontr)
    assume "validationResult (username req) \<noteq> []"
    with h show False
      by (simp add: token_handler_invalid)
  qed
  with h have tok: "token = createToken sig env (trim (username req)) (at req)"
    by (simp add: token_handler_valid)
  from ok have len: "3 \<le> length (trim (username req))"
    using validation_fails_iff [of "username req"] by simp
  from tok have "jwt_decode token =
      Some \<lparr>subject = trim (username req), issuedAt = at req, expiresAt = at req + one_hour\<rparr>"
    by (simp add: createToken_def jwt_decode_sign)
  with len show ?thesis
    by (auto simp: one_hour_def)
qed

theorem issued_claim_invariant_witness:
  "\<exists>c. jwt_decode (createToken example_mac None ''abc'' 7) = Some c \<and>
     expiresAt c = issuedAt c + 60 * 60 * 1000 \<and> issuedAt c = 7 \<and>
     subject c = ''abc'' \<and> subject c \<noteq> [] \<and> 3 \<le> length (subject c)"
proof -
  have "body (fst (post_token example_mac None Map.empty
      \<lparr>ip = ''10.0.0.1'', at = 7, username = '' abc ''\<rparr>)) =
      AccessToken (createToken example_mac None ''abc'' 7)"
    by (simp add: post_token_alt admit_def token_handler_def validationResult_def Let_def
        trim_def whitespace_def notEmpty_def isLength_def res_json_def)
  from issued_claim_invariant [OF this] show ?thesis
    by (simp add: trim_def whitespace_def)
qed

subsection \<open>C10: which part of the header is verified\<close>

text \<open>
  C10. The token that \<open>authenticate\<close> verifies is the second piece of the header split at
  spaces: for a header that starts with \<^verbatim>\<open>Bearer \<close>, what stands between the first space
  and the second (or the end); the outcome of \<open>authenticate\<close> is the outcome of verifying
  exactly that piece, under the configured secret: 401 with \<^verbatim>\<open>Invalid or expired token\<close> when
  the verification fails, and \<^verbatim>\<open>next()\<close> with the decoded subject when it succeeds. So the
  header \<^verbatim>\<open>Bearer \<close> alone yields the empty token, which is answered 401; and when the
  presented token contains a space, only the part before that space is verified: the
  outcome is that of the header cut there, and a token that was just issued is accepted
  whatever follows it after a space.
\<close>

theorem token_extraction:
  "index (split CHR '' '' ''Bearer '') 1 = Some [] \<and>
   authenticate sig env now (Some ''Bearer '') =
     Respond \<lparr>status = 401, body = Message ''Invalid or expired token''\<rparr> \<and>
   (startsWith h ''Bearer '' \<longrightarrow>
      index (split CHR '' '' h) 1 = Some (takeWhile (\<lambda>c. c \<noteq> CHR '' '') (drop 7 h)) \<and>
      authenticate sig env now (Some h) =
        (case jwt_verify sig (takeWhile (\<lambda>c. c \<noteq> CHR '' '') (drop 7 h)) (SECRET_KEY env) now of
           Inl err \<Rightarrow> Respond \<lparr>status = 401, body = Message ''Invalid or expired token''\<rparr>
         | Inr decoded \<Rightarrow> Next (subject decoded))) \<and>
   (CHR '' '' \<notin> set a \<longrightarrow>
      index (split CHR '' '' (''Bearer '' @ a @ '' '' @ b)) 1 = Some a \<and>
      authenticate sig env now (Some (''Bearer '' @ a @ '' '' @ b)) =
        authenticate sig env now (Some (''Bearer '' @ a)) \<and>
      authenticate sig env now (Some (''Bearer '' @ a @ '' '' @ b)) =
        (case jwt_verify sig a (SECRET_KEY env) now of
           Inl err \<Rightarrow> Respond \<lparr>status = 401, body = Message ''Invalid or expired token''\<rparr>
         | Inr decoded \<Rightarrow> Next (subject decoded))) \<and>
   (t < now + one_hour \<longrightarrow>
      authenticate sig env t (Some (''Bearer '' @ createToken sig env s now @ '' '' @ b)) =
        Next s)"
proof (intro conjI impI)
  show "index (split CHR '' '' ''Bearer '') 1 = Some []"
    by (simp add: index_def)
  show "authenticate sig env now (Some ''Bearer '') =
     Respond \<lparr>status = 401, body = Message ''Invalid or expired token''\<rparr>"
    by (simp add: authenticate_def startsWith_def index_def jwt_verify_def res_status_json_def)
next
  assume s: "startsWith h ''Bearer ''"
  then have "h = ''Bearer '' @ drop 7 h"
    by (rule startsWith_Bearer)
  then have "index (split CHR '' '' h) 1 = index (split CHR '' '' (''Bearer '' @ drop 7 h)) 1"
    by simp
  then show i: "index (split CHR '' '' h) 1 =
      Some (takeWhile (\<lambda>c. c \<noteq> CHR '' '') (drop 7 h))"
    by (simp only: index_split_Bearer)
  from s have "h \<noteq> []"
    by (auto simp: startsWith_def)
  with s i show "authenticate sig env now (Some h) =
        (case jwt_verify sig (takeWhile (\<lambda>c. c \<noteq> CHR '' '') (drop 7 h)) (SECRET_KEY env) now of
           Inl err \<Rightarrow> Respond \<lparr>status = 401, body = Message ''Invalid or expired token''\<rparr>
         | Inr decoded \<Rightarrow> Next (subject decoded))"
    unfolding authenticate_def res_status_json_def by (simp del: split.simps)
next
  assume a: "CHR '' '' \<notin> set a"
  have x: "index (split CHR '' '' (''Bearer '' @ (a @ '' '' @ b))) 1 = Some a"
    using a by (simp only: index_split_Bearer) (simp add: takeWhile_sep)
  then show "index (split CHR '' '' (''Bearer '' @ a @ '' '' @ b)) 1 = Some a" .
  have y: "index (split CHR '' '' (''Bearer '' @ a)) 1 = Some a"
    using a by (rule bearer_token)
  have s1: "startsWith (''Bearer '' @ a @ '' '' @ b) ''Bearer ''"
    by (simp add: startsWith_def)
  have s2: "startsWith (''Bearer '' @ a) ''Bearer ''"
    by (simp add: startsWith_def)
  show "authenticate sig env now (Some (''Bearer '' @ a @ '' '' @ b)) =
        authenticate sig env now (Some (''Bearer '' @ a))"
    unfolding authenticate_def using x y s1 s2 by (simp del: split.simps)
  show "authenticate sig env now (Some (''Bearer '' @ a @ '' '' @ b)) =
        (case jwt_verify sig a (SECRET_KEY env) now of
           Inl err \<Rightarrow> Respond \<lparr>status = 401, body = Message ''Invalid or expired token''\<rparr>
         | Inr decoded \<Rightarrow> Next (subject decoded))"
    unfolding authenticate_def res_status_json_def using x s1 by (simp del: split.simps)
next
  assume t: "t < now + one_hour"
  let ?token = "createToken sig env s now"
  have c: "CHR '' '' \<notin> set ?token"
    unfolding createToken_def by (rule jwt_sign_clean)
  have x: "index (split CHR '' '' (''Bearer '' @ (?token @ '' '' @ b))) 1 = Some ?token"
    using c by (simp only: index_split_Bearer) (simp add: takeWhile_sep)
  have s1: "startsWith (''Bearer '' @ ?token @ '' '' @ b) ''Bearer ''"
    by (simp add: startsWith_def)
  have v: "jwt_verify sig ?token (SECRET_KEY env) t =
     Inr \<lparr>subject = s, issuedAt = now, expiresAt = now + one_hour\<rparr>"
    using t by (simp add: createToken_def jwt_verify_sign)
  show "authenticate sig env t (Some (''Bearer '' @ ?token @ '' '' @ b)) = Next s"
    unfolding authenticate_def using x s1 v by (simp del: split.simps)
qed

text \<open>
  The header \<^verbatim>\<open>Bearer abc def\<close> is treated as \<^verbatim>\<open>Bearer abc\<close>; a token that was just issued,
  followed by a space and anything, is accepted; the same token behind two spaces is not,
  since the piece that is verified is then the empty one.
\<close>

theorem token_extraction_witness:
  "index (split CHR '' '' ''Bearer abc def'') 1 = Some ''abc'' \<and>
   authenticate example_mac None 0 (Some ''Bearer abc def'') =
     authenticate example_mac None 0 (Some ''Bearer abc'') \<and>
   authenticate example_mac None 1000
     (Some (''Bearer '' @ createToken example_mac None ''alice'' 1000 @ '' junk'')) =
     Next ''alice'' \<and>
   index (split CHR '' '' (''Bearer  '' @ createToken example_mac None ''alice'' 1000)) 1 =
     Some [] \<and>
   authenticate example_mac None 1000
     (Some (''Bearer  '' @ createToken example_mac None ''alice'' 1000)) =
     Respond \<lparr>status = 401, body = Message ''Invalid or expired token''\<rparr>"
proof -
  let ?token = "createToken example_mac None ''alice'' 1000"
  note cut = token_extraction [where a = "''abc''" and b = "''def''" and sig = example_mac
      and env = None and now = 0, THEN conjunct2, THEN conjunct2, THEN conjunct2,
      THEN conjunct1]
  note fresh = token_extraction [where t = 1000 and now = 1000 and sig = example_mac
      and env = None and s = "''alice''" and b = "''junk''", THEN conjunct2, THEN conjunct2,
      THEN conjunct2, THEN conjunct2]
  note pin = token_extraction [where h = "''Bearer  '' @ ?token" and sig = example_mac
      and env = None and now = 1000, THEN conjunct2, THEN conjunct2, THEN conjunct1]
  have two: "startsWith (''Bearer  '' @ ?token) ''Bearer ''"
    by (simp add: startsWith_def)
  have empty: "jwt_verify example_mac [] (SECRET_KEY None) 1000 = Inl Malformed"
    by (simp add: jwt_verify_def)
  from cut have
    "index (split CHR '' '' ''Bearer abc def'') 1 = Some ''abc'' \<and>
     authenticate example_mac None 0 (Some ''Bearer abc def'') =
       authenticate example_mac None 0 (Some ''Bearer abc'')"
    by simp
  moreover from fresh have
    "authenticate example_mac None 1000 (Some (''Bearer '' @ ?token @ '' junk'')) =
       Next ''alice''"
    by (simp add: one_hour_def)
  moreover from pin two empty have
    "index (split CHR '' '' (''Bearer  '' @ ?token)) 1 = Some [] \<and>
     authenticate example_mac None 1000 (Some (''Bearer  '' @ ?token)) =
       Respond \<lparr>status = 401, body = Message ''Invalid or expired token''\<rparr>"
    by (simp del: split.simps)
  ultimately show ?thesis
    by (simp only: simp_thms)
qed

end
